theory Spec2Isabelle
  imports Main
begin

section \<open>Strings and identifiers\<close>

text \<open>
  JavaScript strings are modelled as \<^typ>\<open>string\<close>, a character being the character with
  that code point (U+0000 to U+00FF, the values of \<^typ>\<open>char\<close>). A JSON object whose
  field values are strings (the request bodies and path parameters of this service) is an
  association list from field names to values; a field that is absent from the list is
  \<open>undefined\<close>.
\<close>

type_synonym json_obj = "(string \<times> string) list"

text \<open>
  \<open>String.prototype.toLowerCase\<close>. Among the code points of \<^typ>\<open>char\<close> the ones that it
  changes are \<open>A..Z\<close> (65 to 90) and the capital letters from U+00C0 to U+00DE other than
  the multiplication sign U+00D7; each goes to the code point 32 above it.
\<close>

definition toLowerCase_char :: "char \<Rightarrow> char" where
  "toLowerCase_char c =
     (let n = (of_char c :: nat) in
      if (65 \<le> n \<and> n \<le> 90) \<or> (192 \<le> n \<and> n \<le> 222 \<and> n \<noteq> 215)
      then char_of (n + 32) else c)"

definition toLowerCase :: "string \<Rightarrow> string" where
  "toLowerCase s = map toLowerCase_char s"

text \<open>
  An ObjectId is a 12-byte value; it is kept in its canonical textual form, 24 lower-case
  hexadecimal digits.
\<close>

type_synonym objectId = string

definition isHexDigit :: "char \<Rightarrow> bool" where
  "isHexDigit c \<longleftrightarrow> c \<in> set ''0123456789abcdefABCDEF''"

text \<open>
  Modelled from the spec: the validator \<open>isMongoId()\<close> of the validation library, which is not
  part of the repository. The spec describes it as the check that a value is a structurally
  valid identifier (format check only); the textual format of an ObjectId is 24 hexadecimal
  digits.
\<close>

definition isMongoId :: "string \<Rightarrow> bool" where
  "isMongoId s \<longleftrightarrow> length s = 24 \<and> list_all isHexDigit s"

text \<open>
  Modelled from the spec: the cast of a string to an ObjectId that the persistence library
  applies to a field of type \<open>Schema.Types.ObjectId\<close> and to a query condition on it. A
  structurally valid identifier is cast to the ObjectId it denotes (hexadecimal digits denote
  the same bytes in either case); anything else is not an identifier and the cast fails.
\<close>

definition castObjectId :: "string \<Rightarrow> objectId option" where
  "castObjectId s = (if isMongoId s then Some (toLowerCase s) else None)"

text \<open>
  Modelled from the spec: the identifier that the store generates for a new document
  (``a store-generated unique identifier assigned at creation''). The \<open>n\<close>-th document
  created gets the 24 hexadecimal digits of \<open>n\<close>.
\<close>

fun hexOf :: "nat \<Rightarrow> nat \<Rightarrow> string" where
  "hexOf 0 n = []"
| "hexOf (Suc k) n = hexOf k (n div 16) @ [''0123456789abcdef'' ! (n mod 16)]"

definition newObjectId :: "nat \<Rightarrow> objectId" where
  "newObjectId n = hexOf 24 n"

section \<open>Documents and the store\<close>

text \<open>
  \<open>userSchema\<close>: \<open>username\<close> is a required string with \<open>lowercase: true\<close> and
  \<open>unique: true\<close>; \<open>{ timestamps: true }\<close> adds \<open>createdAt\<close> and \<open>updatedAt\<close>.
\<close>

record user_doc =
  user_id :: objectId
  username :: string
  user_createdAt :: nat
  user_updatedAt :: nat

text \<open>
  \<open>taskSchema\<close>: \<open>title\<close> is a required string, \<open>user\<close> a required ObjectId with
  \<open>ref: "User"\<close>; timestamps as above.
\<close>

record task_doc =
  task_id :: objectId
  title :: string
  user :: objectId
  task_createdAt :: nat
  task_updatedAt :: nat

text \<open>
  A task after \<open>populate("user")\<close>: the \<open>user\<close> field holds the User document that was
  found for the reference, or \<open>null\<close> (\<open>None\<close>) when the collection has no document with
  that identifier.
\<close>

record populated_task =
  ptask_id :: objectId
  ptitle :: string
  puser :: "user_doc option"
  ptask_createdAt :: nat
  ptask_updatedAt :: nat

text \<open>The operations that the application submits to the persistence layer.\<close>

datatype store_op = OpUserCreate | OpTaskCreate | OpTaskFindPopulate

text \<open>
  The persistence layer as the application sees it: whether the process-wide connection is
  open, the two collections in insertion order, the number of identifiers handed out, the
  clock that stamps documents, and the operations submitted so far.
\<close>

record store =
  connected :: bool
  users :: "user_doc list"
  tasks :: "task_doc list"
  nextId :: nat
  clock :: nat
  oplog :: "store_op list"

datatype error =
    ValidationError "string list"
  | CastError string
  | DuplicateKeyError string
  | StoreUnreachable store_op
  | ConnectError string

text \<open>\<open>error.message\<close>\<close>

fun error_message :: "error \<Rightarrow> string" where
  "error_message (ValidationError ps) = ''validation failed: '' @ concat ps"
| "error_message (CastError v) = ''Cast to ObjectId failed for value '' @ v"
| "error_message (DuplicateKeyError k) = ''E11000 duplicate key error: '' @ k"
| "error_message (StoreUnreachable _) = ''operation buffering timed out''"
| "error_message (ConnectError m) = m"

definition submit :: "store_op \<Rightarrow> store \<Rightarrow> store" where
  "submit op st = st\<lparr>oplog := oplog st @ [op]\<rparr>"

text \<open>
  Modelled from the spec: \<open>User.create(userData)\<close> of the persistence library under
  \<open>userSchema\<close>. The \<open>lowercase\<close> setter is applied when the value is set; \<open>required\<close>
  rejects an absent or empty string before anything is sent; an unreachable store makes the
  operation fail; the unique index rejects a username that a stored User already has.
  Otherwise the document is stored with a fresh identifier and both timestamps.
\<close>

definition User_create :: "store \<Rightarrow> json_obj \<Rightarrow> (error + user_doc) \<times> store" where
  "User_create st userData =
     (let st1 = submit OpUserCreate st in
      case map_of userData ''username'' of
        None \<Rightarrow> (Inl (ValidationError [''username'']), st1)
      | Some v \<Rightarrow>
          (let name = toLowerCase v in
           if name = [] then (Inl (ValidationError [''username'']), st1)
           else if \<not> connected st1 then (Inl (StoreUnreachable OpUserCreate), st1)
           else if name \<in> set (map username (users st1))
             then (Inl (DuplicateKeyError name), st1)
           else
             (let doc = \<lparr>user_id = newObjectId (nextId st1), username = name,
                         user_createdAt = clock st1, user_updatedAt = clock st1\<rparr>
              in (Inr doc, st1\<lparr>users := users st1 @ [doc],
                                nextId := Suc (nextId st1),
                                clock := Suc (clock st1)\<rparr>))))"

text \<open>
  Modelled from the spec: \<open>Task.create(taskData)\<close> under \<open>taskSchema\<close>. \<open>title\<close> and
  \<open>user\<close> are required and \<open>user\<close> must cast to an ObjectId; the referenced User is not
  looked up.
\<close>

definition requiredString :: "json_obj \<Rightarrow> string \<Rightarrow> string option" where
  "requiredString data path =
     (case map_of data path of None \<Rightarrow> None | Some v \<Rightarrow> if v = [] then None else Some v)"

definition requiredObjectId :: "json_obj \<Rightarrow> string \<Rightarrow> objectId option" where
  "requiredObjectId data path =
     (case map_of data path of None \<Rightarrow> None | Some v \<Rightarrow> castObjectId v)"

definition Task_create :: "store \<Rightarrow> json_obj \<Rightarrow> (error + task_doc) \<times> store" where
  "Task_create st taskData =
     (let st1 = submit OpTaskCreate st in
      case (requiredString taskData ''title'', requiredObjectId taskData ''user'') of
        (Some t, Some uid) \<Rightarrow>
          if \<not> connected st1 then (Inl (StoreUnreachable OpTaskCreate), st1)
          else
            (let doc = \<lparr>task_id = newObjectId (nextId st1), title = t, user = uid,
                        task_createdAt = clock st1, task_updatedAt = clock st1\<rparr>
             in (Inr doc, st1\<lparr>tasks := tasks st1 @ [doc],
                               nextId := Suc (nextId st1),
                               clock := Suc (clock st1)\<rparr>))
      | (t, uid) \<Rightarrow>
          (Inl (ValidationError ((if t = None then [''title''] else []) @
                                 (if uid = None then [''user''] else []))), st1))"

text \<open>
  Modelled from the spec: \<open>populate("user")\<close> of the persistence library resolves the
  reference of a task into the User document with that identifier (the first one in the
  collection, were there several). The spec does not say what becomes of a reference that
  no User has; the library documents that it leaves \<open>null\<close> in the field.
\<close>

definition populate :: "user_doc list \<Rightarrow> task_doc \<Rightarrow> populated_task" where
  "populate us t =
     \<lparr>ptask_id = task_id t, ptitle = title t,
      puser = find (\<lambda>u. user_id u = user t) us,
      ptask_createdAt = task_createdAt t, ptask_updatedAt = task_updatedAt t\<rparr>"

text \<open>
  Modelled from the spec: \<open>Task.find({ user: userId }).populate("user")\<close>. The condition is
  cast to an ObjectId first (a value that is not an identifier is an error), then the tasks
  with that \<open>user\<close> are read in the order of the collection and populated.
\<close>

definition Task_find_populate ::
  "store \<Rightarrow> string \<Rightarrow> (error + populated_task list) \<times> store" where
  "Task_find_populate st userId =
     (let st1 = submit OpTaskFindPopulate st in
      case castObjectId userId of
        None \<Rightarrow> (Inl (CastError userId), st1)
      | Some uid \<Rightarrow>
          if \<not> connected st1 then (Inl (StoreUnreachable OpTaskFindPopulate), st1)
          else (Inr (map (populate (users st1)) (filter (\<lambda>t. user t = uid) (tasks st1))), st1))"

section \<open>Controllers\<close>

text \<open>
  \<open>controllers/usersController.js\<close> and \<open>controllers/tasksController.js\<close>: each controller
  awaits one call of the persistence layer inside \<open>try\<close>, returns its value, and in
  \<open>catch (error)\<close> throws the error it caught.
\<close>

definition createUser :: "store \<Rightarrow> json_obj \<Rightarrow> (error + user_doc) \<times> store" where
  "createUser st userData =
     (case User_create st userData of
        (Inr newUser, st') \<Rightarrow> (Inr newUser, st')
      | (Inl error, st') \<Rightarrow> (Inl error, st'))"

definition createTask :: "store \<Rightarrow> json_obj \<Rightarrow> (error + task_doc) \<times> store" where
  "createTask st taskData =
     (case Task_create st taskData of
        (Inr newTask, st') \<Rightarrow> (Inr newTask, st')
      | (Inl error, st') \<Rightarrow> (Inl error, st'))"

definition getTasksByUser :: "store \<Rightarrow> string \<Rightarrow> (error + populated_task list) \<times> store" where
  "getTasksByUser st userId =
     (case Task_find_populate st userId of
        (Inr tasks', st') \<Rightarrow> (Inr tasks', st')
      | (Inl error, st') \<Rightarrow> (Inl error, st'))"

section \<open>Request validation\<close>

text \<open>
  What a route sees of a request: the path parameters and the parsed JSON body.
\<close>

record request =
  req_params :: json_obj
  req_body :: json_obj

datatype location = Body | Params

datatype validator = NotEmpty | IsMongoId

text \<open>
  A validation chain of the routes: \<open>body(field)\<close> or \<open>param(field)\<close>, one validator,
  \<open>withMessage(msg)\<close>.
\<close>

datatype chain = Chain location string validator string

text \<open>One entry of \<open>errors.array()\<close>.\<close>

record validation_error =
  ve_location :: location
  ve_path :: string
  ve_value :: "string option"
  ve_msg :: string

definition selectField :: "request \<Rightarrow> location \<Rightarrow> string \<Rightarrow> string option" where
  "selectField req loc field =
     (case loc of Body \<Rightarrow> map_of (req_body req) field
                | Params \<Rightarrow> map_of (req_params req) field)"

text \<open>
  Modelled from the spec: the validators of the validation library. A validator sees the
  value as a string, an absent field as the empty string; \<open>notEmpty()\<close> holds of a string
  that is not empty, \<open>isMongoId()\<close> of a structurally valid identifier.
\<close>

definition toString :: "string option \<Rightarrow> string" where
  "toString v = (case v of None \<Rightarrow> [] | Some s \<Rightarrow> s)"

fun passes :: "validator \<Rightarrow> string \<Rightarrow> bool" where
  "passes NotEmpty s \<longleftrightarrow> s \<noteq> []"
| "passes IsMongoId s \<longleftrightarrow> isMongoId s"

fun runChain :: "request \<Rightarrow> chain \<Rightarrow> validation_error list" where
  "runChain req (Chain loc field v msg) =
     (let val = selectField req loc field in
      if passes v (toString val) then []
      else [\<lparr>ve_location = loc, ve_path = field, ve_value = val, ve_msg = msg\<rparr>])"

text \<open>
  \<open>validationResult(req)\<close>: the errors that the chains of the route have recorded, in the
  order of the chains.
\<close>

definition validationResult :: "chain list \<Rightarrow> request \<Rightarrow> validation_error list" where
  "validationResult cs req = concat (map (runChain req) cs)"

section \<open>Routers\<close>

datatype payload =
    PUser user_doc
  | PTask task_doc
  | PTasks "populated_task list"
  | PErrors "validation_error list"
  | PMessage string

text \<open>
  A response: the HTTP status (\<open>res.json\<close> without \<open>res.status\<close> answers 200) and the
  JSON object \<open>{ message, payload }\<close>.
\<close>

record response =
  status :: nat
  message :: string
  payload :: payload

text \<open>\<open>routes/usersRouter.js\<close>, \<open>router.post("/", ...)\<close>\<close>

definition usersRouter_post_chains :: "chain list" where
  "usersRouter_post_chains = [Chain Body ''username'' NotEmpty ''Username is required'']"

definition usersRouter_post :: "store \<Rightarrow> request \<Rightarrow> response \<times> store" where
  "usersRouter_post st req =
     (let errors = validationResult usersRouter_post_chains req in
      if errors \<noteq> [] then
        (\<lparr>status = 400, message = ''validation failure'', payload = PErrors errors\<rparr>, st)
      else
        (case createUser st (req_body req) of
           (Inr user', st') \<Rightarrow>
             (\<lparr>status = 200, message = ''success'', payload = PUser user'\<rparr>, st')
         | (Inl error, st') \<Rightarrow>
             (\<lparr>status = 500, message = ''failure'',
               payload = PMessage (error_message error)\<rparr>, st')))"

text \<open>\<open>routes/tasksRouter.js\<close>, \<open>router.post("/", ...)\<close>\<close>

definition tasksRouter_post_chains :: "chain list" where
  "tasksRouter_post_chains =
     [Chain Body ''title'' NotEmpty ''Title is required'',
      Chain Body ''user'' IsMongoId ''User ID must be a valid MongoDB ObjectId'']"

definition tasksRouter_post :: "store \<Rightarrow> request \<Rightarrow> response \<times> store" where
  "tasksRouter_post st req =
     (let errors = validationResult tasksRouter_post_chains req in
      if errors \<noteq> [] then
        (\<lparr>status = 400, message = ''validation failure'', payload = PErrors errors\<rparr>, st)
      else
        (case createTask st (req_body req) of
           (Inr task, st') \<Rightarrow>
             (\<lparr>status = 200, message = ''success'', payload = PTask task\<rparr>, st')
         | (Inl error, st') \<Rightarrow>
             (\<lparr>status = 500, message = ''failure'',
               payload = PMessage (error_message error)\<rparr>, st')))"

text \<open>
  \<open>routes/tasksRouter.js\<close>, \<open>router.get("/user/:userId", ...)\<close>. Past the chain,
  \<open>req.params.userId\<close> is a string.
\<close>

definition tasksRouter_get_user_chains :: "chain list" where
  "tasksRouter_get_user_chains = [Chain Params ''userId'' IsMongoId ''Invalid user ID'']"

definition tasksRouter_get_user :: "store \<Rightarrow> request \<Rightarrow> response \<times> store" where
  "tasksRouter_get_user st req =
     (let errors = validationResult tasksRouter_get_user_chains req in
      if errors \<noteq> [] then
        (\<lparr>status = 400, message = ''validation failure'', payload = PErrors errors\<rparr>, st)
      else
        (case getTasksByUser st (toString (map_of (req_params req) ''userId'')) of
           (Inr tasks', st') \<Rightarrow>
             (\<lparr>status = 200, message = ''success'', payload = PTasks tasks'\<rparr>, st')
         | (Inl error, st') \<Rightarrow>
             (\<lparr>status = 500, message = ''failure'',
               payload = PMessage (error_message error)\<rparr>, st')))"

section \<open>Connection bootstrap\<close>

text \<open>
  The process configuration and the environment of a run: the connection string
  \<open>process.env.MONGODB_URI\<close> (absent when the variable is not set) and whether the store
  at that address accepts the connection.
\<close>

record env =
  MONGODB_URI :: "string option"
  storeReachable :: bool

datatype log_entry = LogText string | LogError error

datatype router = UsersRouter | TasksRouter

datatype layer = JsonBodyParser | Logger string | Mount "string list" router

text \<open>
  The process: the middleware stack of \<open>app\<close> in registration order, the port the HTTP
  server listens on, the values written by \<open>console.log\<close>, the \<open>strictQuery\<close> option of
  the persistence library, the number of connections attempted, whether the process is
  alive, and the persistence layer.
\<close>

record world =
  layers :: "layer list"
  listening :: "nat option"
  console :: "log_entry list"
  strictQuery :: "bool option"
  connectAttempts :: nat
  running :: bool
  db :: store

definition console_log :: "log_entry \<Rightarrow> world \<Rightarrow> world" where
  "console_log x w = w\<lparr>console := console w @ [x]\<rparr>"

text \<open>
  Modelled from the spec: \<open>mongoose.connect(process.env.MONGODB_URI)\<close>, one attempt to
  open the process-wide connection with the connection string of the process configuration.
  It fails when there is no connection string or the store does not accept the connection.
\<close>

definition connect_outcome :: "env \<Rightarrow> error + unit" where
  "connect_outcome env =
     (case MONGODB_URI env of
        None \<Rightarrow> Inl (ConnectError ''the uri parameter must be a string'')
      | Some uri \<Rightarrow>
          if storeReachable env then Inr ()
          else Inl (ConnectError (''could not connect to '' @ uri)))"

definition mongoose_connect :: "env \<Rightarrow> world \<Rightarrow> (error + unit) \<times> world" where
  "mongoose_connect env w =
     (let w1 = w\<lparr>connectAttempts := Suc (connectAttempts w)\<rparr> in
      case connect_outcome env of
        Inl error \<Rightarrow> (Inl error, w1)
      | Inr _ \<Rightarrow> (Inr (), w1\<lparr>db := (db w1)\<lparr>connected := True\<rparr>\<rparr>))"

text \<open>
  \<open>config/connectToMongoDB.js\<close>. The result is the outcome of the promise that the
  \<open>async\<close> function returns: \<open>Inr ()\<close> when it resolves, \<open>Inl e\<close> when it rejects
  with \<open>e\<close>.
\<close>

definition connectToMongoDB :: "env \<Rightarrow> world \<Rightarrow> (error + unit) \<times> world" where
  "connectToMongoDB env w =
     (let w1 = w\<lparr>strictQuery := Some False\<rparr> in
      case mongoose_connect env w1 of
        (Inr _, w2) \<Rightarrow> (Inr (), console_log (LogText ''MONGODB CONNECTED'') w2)
      | (Inl error, w2) \<Rightarrow> (Inr (), console_log (LogError error) w2))"

text \<open>
  The second copy of the module (\<open>unnamed/part_000\<close>), which does not set
  \<open>strictQuery\<close>.
\<close>

definition connectToMongoDB_part_000 :: "env \<Rightarrow> world \<Rightarrow> (error + unit) \<times> world" where
  "connectToMongoDB_part_000 env w =
     (case mongoose_connect env w of
        (Inr _, w2) \<Rightarrow> (Inr (), console_log (LogText ''MONGODB CONNECTED'') w2)
      | (Inl error, w2) \<Rightarrow> (Inr (), console_log (LogError error) w2))"

section \<open>Application entry\<close>

definition PORT :: nat where
  "PORT = 3000"

text \<open>The decimal digits of a number, for the template literal of the start-up message.\<close>

fun decimal :: "nat \<Rightarrow> string" where
  "decimal n =
     (if n < 10 then [''0123456789'' ! n]
      else decimal (n div 10) @ [''0123456789'' ! (n mod 10)])"

definition app_use :: "layer \<Rightarrow> world \<Rightarrow> world" where
  "app_use l w = w\<lparr>layers := layers w @ [l]\<rparr>"

text \<open>The HTTP server is bound to the port and accepts requests.\<close>

definition server_listen :: "nat \<Rightarrow> world \<Rightarrow> world" where
  "server_listen port w = w\<lparr>listening := Some port\<rparr>"

text \<open>
  The call \<open>connectToMongoDB()\<close> of the callback. The promise is not awaited: were it to
  reject, the rejection would be unhandled and end the process.
\<close>

definition call_connectToMongoDB :: "env \<Rightarrow> world \<Rightarrow> world" where
  "call_connectToMongoDB env w =
     (case connectToMongoDB env w of
        (Inr _, w') \<Rightarrow> w'
      | (Inl _, w') \<Rightarrow> w'\<lparr>running := False\<rparr>)"

text \<open>
  \<open>index.js\<close>: the steps of a start-up in the order in which they take effect. The
  statements of the script register the body parser and the logger; the server then listens
  on \<open>PORT\<close> and runs the callback given to \<open>app.listen\<close>, which logs the port and calls
  \<open>connectToMongoDB\<close>. The script registers nothing else: the two \<open>app.use\<close> calls that
  mount the routers are the lines that section 5 of the lesson leaves to its reader.
\<close>

definition index_js :: "env \<Rightarrow> (world \<Rightarrow> world) list" where
  "index_js env =
     [app_use JsonBodyParser,
      app_use (Logger ''dev''),
      server_listen PORT,
      console_log (LogText (''server is on port '' @ decimal PORT @ ''...'')),
      call_connectToMongoDB env]"

text \<open>The states that a list of steps goes through, the first one included.\<close>

fun states :: "(world \<Rightarrow> world) list \<Rightarrow> world \<Rightarrow> world list" where
  "states [] w = [w]"
| "states (f # fs) w = w # states fs (f w)"

text \<open>
  A process that has just started: nothing registered, no connection; the collections hold
  what the store has persisted.
\<close>

definition new_process :: "store \<Rightarrow> world" where
  "new_process st =
     \<lparr>layers = [], listening = None, console = [], strictQuery = None,
      connectAttempts = 0, running = True, db = st\<lparr>connected := False\<rparr>\<rparr>"

definition startup :: "env \<Rightarrow> store \<Rightarrow> world list" where
  "startup env st = states (index_js env) (new_process st)"

definition started :: "env \<Rightarrow> store \<Rightarrow> world" where
  "started env st = last (startup env st)"

section \<open>Routing of requests\<close>

datatype http_method = GET | POST | OTHER

text \<open>
  An incoming request: the method, the path as its segments
  (\<open>/api/tasks/user/42\<close> is \<open>[''api'', ''tasks'', ''user'', ''42'']\<close>), and the JSON body.
\<close>

record http_request =
  http_method :: http_method
  http_path :: "string list"
  http_body :: json_obj

text \<open>
  Modelled from the spec: the routing of the HTTP framework. A router mounted under a path
  prefix sees the requests whose path starts with the segments of the prefix, with the
  prefix removed; segments are compared without regard to case.
\<close>

fun stripMount :: "string list \<Rightarrow> string list \<Rightarrow> string list option" where
  "stripMount [] path = Some path"
| "stripMount (m # ms) [] = None"
| "stripMount (m # ms) (p # ps) =
     (if toLowerCase m = toLowerCase p then stripMount ms ps else None)"

text \<open>
  The routes of the two routers: \<open>post("/")\<close> of \<open>usersRouter\<close>, \<open>post("/")\<close> and
  \<open>get("/user/:userId")\<close> of \<open>tasksRouter\<close>. \<open>None\<close>: the router has no route for the
  request.
\<close>

fun router_handle ::
  "router \<Rightarrow> store \<Rightarrow> http_method \<Rightarrow> string list \<Rightarrow> json_obj \<Rightarrow> (response \<times> store) option" where
  "router_handle UsersRouter st POST [] b =
     Some (usersRouter_post st \<lparr>req_params = [], req_body = b\<rparr>)"
| "router_handle TasksRouter st POST [] b =
     Some (tasksRouter_post st \<lparr>req_params = [], req_body = b\<rparr>)"
| "router_handle TasksRouter st GET [u, userId] b =
     (if toLowerCase u = ''user''
      then Some (tasksRouter_get_user st \<lparr>req_params = [(''userId'', userId)], req_body = b\<rparr>)
      else None)"
| "router_handle r st m p b = None"

text \<open>
  A request goes down the stack. The body parser and the logger hand it on; a mounted router
  answers it when the prefix and one of its routes match, otherwise the next layer is tried.
  \<open>None\<close>: no layer has answered.
\<close>

fun handle_layers :: "layer list \<Rightarrow> store \<Rightarrow> http_request \<Rightarrow> (response \<times> store) option" where
  "handle_layers [] st rq = None"
| "handle_layers (JsonBodyParser # ls) st rq = handle_layers ls st rq"
| "handle_layers (Logger fmt # ls) st rq = handle_layers ls st rq"
| "handle_layers (Mount prefix r # ls) st rq =
     (case stripMount prefix (http_path rq) of
        None \<Rightarrow> handle_layers ls st rq
      | Some rest \<Rightarrow>
          (case router_handle r st (http_method rq) rest (http_body rq) of
             None \<Rightarrow> handle_layers ls st rq
           | Some res \<Rightarrow> Some res))"

text \<open>The application answers a request once the server listens.\<close>

definition app_handle :: "world \<Rightarrow> http_request \<Rightarrow> (response \<times> world) option" where
  "app_handle w rq =
     (if listening w = None then None
      else (case handle_layers (layers w) (db w) rq of
              None \<Rightarrow> None
            | Some (res, st') \<Rightarrow> Some (res, w\<lparr>db := st'\<rparr>)))"

section \<open>Reachable stores\<close>

definition empty_store :: store where
  "empty_store =
     \<lparr>connected = False, users = [], tasks = [], nextId = 0, clock = 0, oplog = []\<rparr>"

text \<open>
  The stores that the application can bring about: from the empty store, by opening or losing
  the connection, by the passing of time, and by the calls of the three controllers.
\<close>

inductive reachable :: "store \<Rightarrow> bool" where
  reachable_empty: "reachable empty_store"
| reachable_connection: "reachable st \<Longrightarrow> reachable (st\<lparr>connected := b\<rparr>)"
| reachable_clock: "reachable st \<Longrightarrow> reachable (st\<lparr>clock := clock st + n\<rparr>)"
| reachable_createUser: "reachable st \<Longrightarrow> reachable (snd (createUser st userData))"
| reachable_createTask: "reachable st \<Longrightarrow> reachable (snd (createTask st taskData))"
| reachable_getTasksByUser: "reachable st \<Longrightarrow> reachable (snd (getTasksByUser st userId))"

section \<open>The rules and the envelope in the words of the interface\<close>

text \<open>A field that is missing from the request, or present and empty.\<close>

definition missing_or_empty :: "string option \<Rightarrow> bool" where
  "missing_or_empty v \<longleftrightarrow> v = None \<or> v = Some []"

text \<open>A field that is missing, or that is not a structurally valid identifier.\<close>

definition not_an_identifier :: "string option \<Rightarrow> bool" where
  "not_an_identifier v \<longleftrightarrow> (case v of None \<Rightarrow> True | Some s \<Rightarrow> \<not> isMongoId s)"

text \<open>
  The capital letters among the characters: \<open>A\<close> to \<open>Z\<close>, U+00C0 to U+00D6 and U+00D8 to
  U+00DE.
\<close>

definition upper_case_letter :: "char \<Rightarrow> bool" where
  "upper_case_letter c \<longleftrightarrow>
     (let n = (of_char c :: nat) in
      (65 \<le> n \<and> n \<le> 90) \<or> (192 \<le> n \<and> n \<le> 214) \<or> (216 \<le> n \<and> n \<le> 222))"

text \<open>The small letter of a capital letter: its code point is 32 above.\<close>

definition lower_case_of :: "char \<Rightarrow> char \<Rightarrow> bool" where
  "lower_case_of C c \<longleftrightarrow> upper_case_letter C \<and> (of_char c :: nat) = of_char C + 32"

text \<open>
  Two strings collide case-insensitively: they have the same length and at each position the
  same character, or a capital letter and its small letter.
\<close>

definition same_ignoring_case :: "string \<Rightarrow> string \<Rightarrow> bool" where
  "same_ignoring_case a b \<longleftrightarrow>
     list_all2 (\<lambda>x y. x = y \<or> lower_case_of x y \<or> lower_case_of y x) a b"

text \<open>The three pairs of status code and message of the interface.\<close>

definition envelope_tag :: "response \<Rightarrow> bool" where
  "envelope_tag res \<longleftrightarrow>
     (status res = 200 \<and> message res = ''success'') \<or>
     (status res = 400 \<and> message res = ''validation failure'') \<or>
     (status res = 500 \<and> message res = ''failure'')"

section \<open>Facts about the controllers and the chains\<close>

lemma createUser_eq: "createUser st d = User_create st d"
  by (simp add: createUser_def split: prod.splits sum.splits)

lemma createTask_eq: "createTask st d = Task_create st d"
  by (simp add: createTask_def split: prod.splits sum.splits)

lemma getTasksByUser_eq: "getTasksByUser st u = Task_find_populate st u"
  by (simp add: getTasksByUser_def split: prod.splits sum.splits)

lemma createUser_oplog: "oplog (snd (createUser st d)) = oplog st @ [OpUserCreate]"
  by (simp add: createUser_eq User_create_def submit_def Let_def split: option.splits)

lemma createTask_oplog: "oplog (snd (createTask st d)) = oplog st @ [OpTaskCreate]"
  by (simp add: createTask_eq Task_create_def submit_def Let_def
      split: option.splits prod.splits)

lemma getTasksByUser_oplog:
  "oplog (snd (getTasksByUser st u)) = oplog st @ [OpTaskFindPopulate]"
  by (simp add: getTasksByUser_eq Task_find_populate_def submit_def Let_def
      split: option.splits)

lemma passes_NotEmpty: "passes NotEmpty (toString v) \<longleftrightarrow> \<not> missing_or_empty v"
  by (cases v) (simp_all add: toString_def missing_or_empty_def)

lemma isMongoId_Nil: "\<not> isMongoId []"
  by (simp add: isMongoId_def)

lemma passes_IsMongoId: "passes IsMongoId (toString v) \<longleftrightarrow> \<not> not_an_identifier v"
  by (cases v) (simp_all add: toString_def not_an_identifier_def isMongoId_Nil)

lemma users_post_chains:
  "validationResult usersRouter_post_chains req =
     (if missing_or_empty (map_of (req_body req) ''username'')
      then [\<lparr>ve_location = Body, ve_path = ''username'',
             ve_value = map_of (req_body req) ''username'', ve_msg = ''Username is required''\<rparr>]
      else [])"
  by (simp add: validationResult_def usersRouter_post_chains_def selectField_def Let_def
      passes_NotEmpty del: passes.simps)

lemma tasks_post_chains:
  "validationResult tasksRouter_post_chains req =
     (if missing_or_empty (map_of (req_body req) ''title'')
      then [\<lparr>ve_location = Body, ve_path = ''title'',
             ve_value = map_of (req_body req) ''title'', ve_msg = ''Title is required''\<rparr>]
      else []) @
     (if not_an_identifier (map_of (req_body req) ''user'')
      then [\<lparr>ve_location = Body, ve_path = ''user'',
             ve_value = map_of (req_body req) ''user'',
             ve_msg = ''User ID must be a valid MongoDB ObjectId''\<rparr>]
      else [])"
  by (simp add: validationResult_def tasksRouter_post_chains_def selectField_def Let_def
      passes_NotEmpty passes_IsMongoId del: passes.simps)

lemma tasks_get_user_chains:
  "validationResult tasksRouter_get_user_chains req =
     (if not_an_identifier (map_of (req_params req) ''userId'')
      then [\<lparr>ve_location = Params, ve_path = ''userId'',
             ve_value = map_of (req_params req) ''userId'', ve_msg = ''Invalid user ID''\<rparr>]
      else [])"
  by (simp add: validationResult_def tasksRouter_get_user_chains_def selectField_def Let_def
      passes_IsMongoId del: passes.simps)

lemma objectId_example: "isMongoId ''507f1f77bcf86cd799439011''"
  by (simp add: isMongoId_def isHexDigit_def)

lemma objectId_example_lower:
  "toLowerCase ''507f1f77bcf86cd799439011'' = ''507f1f77bcf86cd799439011''"
  by (simp add: toLowerCase_def toLowerCase_char_def)

lemma newObjectId_0: "newObjectId 0 = ''000000000000000000000000''"
  by code_simp

section \<open>The controllers and the errors of the persistence layer\<close>

text \<open>
  C6. Whenever the persistence layer raises an error on a create (a violated uniqueness
  constraint, an unreachable store, or any other), \<open>createUser\<close> and \<open>createTask\<close> fail
  with that very error, neither translated nor wrapped; whenever it returns the created
  record, so do they. The store is left as the persistence layer left it.
\<close>

theorem controllers_propagate:
  "(fst (User_create st userData) = Inl e \<longrightarrow> fst (createUser st userData) = Inl e) \<and>
   (fst (User_create st userData) = Inr newUser \<longrightarrow>
      fst (createUser st userData) = Inr newUser) \<and>
   snd (createUser st userData) = snd (User_create st userData) \<and>
   (fst (Task_create st taskData) = Inl e' \<longrightarrow> fst (createTask st taskData) = Inl e') \<and>
   (fst (Task_create st taskData) = Inr newTask \<longrightarrow>
      fst (createTask st taskData) = Inr newTask) \<and>
   snd (createTask st taskData) = snd (Task_create st taskData)"
  by (simp add: createUser_def createTask_def split: prod.splits sum.splits)

text \<open>
  On the empty store, which has no connection, the persistence layer raises
  \<open>StoreUnreachable\<close>, and that is the error of \<open>createUser\<close>.
\<close>

theorem controllers_propagate_witness:
  "fst (User_create empty_store [(''username'', ''bob'')]) = Inl (StoreUnreachable OpUserCreate) \<and>
   fst (createUser empty_store [(''username'', ''bob'')]) = Inl (StoreUnreachable OpUserCreate)"
proof -
  have raised:
    "fst (User_create empty_store [(''username'', ''bob'')]) = Inl (StoreUnreachable OpUserCreate)"
    by (simp add: User_create_def empty_store_def submit_def toLowerCase_def
        toLowerCase_char_def)
  from controllers_propagate [of empty_store "[(''username'', ''bob'')]"
      "StoreUnreachable OpUserCreate"] raised
  have "fst (createUser empty_store [(''username'', ''bob'')]) = Inl (StoreUnreachable OpUserCreate)"
    by blast
  with raised show ?thesis by blast
qed

section \<open>The connection bootstrap\<close>

text \<open>
  C10. In every state and every environment, \<open>connectToMongoDB\<close> (either copy of the
  module) does not raise to its caller: the promise it returns resolves. An error of the
  underlying connect call is caught inside the function and logged there.
\<close>

theorem connectToMongoDB_never_raises:
  "fst (connectToMongoDB env w) = Inr () \<and>
   fst (connectToMongoDB_part_000 env w) = Inr () \<and>
   (connect_outcome env = Inl e \<longrightarrow>
      console (snd (connectToMongoDB env w)) = console w @ [LogError e] \<and>
      console (snd (connectToMongoDB_part_000 env w)) = console w @ [LogError e])"
  by (simp add: connectToMongoDB_def connectToMongoDB_part_000_def mongoose_connect_def
      console_log_def Let_def split: sum.splits)

text \<open>Without a connection string the connect call fails and the error is logged.\<close>

theorem connectToMongoDB_never_raises_witness:
  "connect_outcome \<lparr>MONGODB_URI = None, storeReachable = True\<rparr> =
     Inl (ConnectError ''the uri parameter must be a string'') \<and>
   console (snd (connectToMongoDB \<lparr>MONGODB_URI = None, storeReachable = True\<rparr>
      (new_process empty_store))) =
     [LogError (ConnectError ''the uri parameter must be a string'')]"
proof -
  have failed: "connect_outcome \<lparr>MONGODB_URI = None, storeReachable = True\<rparr> =
     Inl (ConnectError ''the uri parameter must be a string'')"
    by (simp add: connect_outcome_def)
  from connectToMongoDB_never_raises [of "\<lparr>MONGODB_URI = None, storeReachable = True\<rparr>"
      "new_process empty_store" "ConnectError ''the uri parameter must be a string''"] failed
  have "console (snd (connectToMongoDB \<lparr>MONGODB_URI = None, storeReachable = True\<rparr>
      (new_process empty_store))) =
      console (new_process empty_store) @
        [LogError (ConnectError ''the uri parameter must be a string'')]"
    by blast
  with failed show ?thesis by (simp add: new_process_def)
qed

text \<open>
  C5. When the attempt to connect fails with an error, the bootstrap logs that error,
  returns normally, and the process stays alive, also past the call in the callback of
  \<open>app.listen\<close>. When the attempt succeeds, it logs \<open>MONGODB CONNECTED\<close> and the
  connection is open. In both cases exactly one connection has been attempted: there is no
  retry.
\<close>

theorem connectToMongoDB_bootstrap:
  "(connect_outcome env = Inl e \<longrightarrow>
      connectToMongoDB env w =
        (Inr (), w\<lparr>strictQuery := Some False, connectAttempts := Suc (connectAttempts w),
                    console := console w @ [LogError e]\<rparr>) \<and>
      connectToMongoDB_part_000 env w =
        (Inr (), w\<lparr>connectAttempts := Suc (connectAttempts w),
                    console := console w @ [LogError e]\<rparr>) \<and>
      call_connectToMongoDB env w =
        w\<lparr>strictQuery := Some False, connectAttempts := Suc (connectAttempts w),
          console := console w @ [LogError e]\<rparr>) \<and>
   (connect_outcome env = Inr () \<longrightarrow>
      connectToMongoDB env w =
        (Inr (), w\<lparr>strictQuery := Some False, connectAttempts := Suc (connectAttempts w),
                    db := (db w)\<lparr>connected := True\<rparr>,
                    console := console w @ [LogText ''MONGODB CONNECTED'']\<rparr>) \<and>
      connectToMongoDB_part_000 env w =
        (Inr (), w\<lparr>connectAttempts := Suc (connectAttempts w),
                    db := (db w)\<lparr>connected := True\<rparr>,
                    console := console w @ [LogText ''MONGODB CONNECTED'']\<rparr>)) \<and>
   running (snd (connectToMongoDB env w)) = running w \<and>
   running (snd (connectToMongoDB_part_000 env w)) = running w \<and>
   running (call_connectToMongoDB env w) = running w \<and>
   connectAttempts (snd (connectToMongoDB env w)) = Suc (connectAttempts w) \<and>
   connectAttempts (snd (connectToMongoDB_part_000 env w)) = Suc (connectAttempts w)"
  by (simp add: connectToMongoDB_def connectToMongoDB_part_000_def mongoose_connect_def
      call_connectToMongoDB_def console_log_def Let_def split: sum.splits)

text \<open>
  A store that refuses the connection, and one that accepts it: what the process has logged
  after the call of the callback.
\<close>

theorem connectToMongoDB_bootstrap_witness:
  "connect_outcome \<lparr>MONGODB_URI = Some ''db'', storeReachable = False\<rparr> =
     Inl (ConnectError ''could not connect to db'') \<and>
   console (call_connectToMongoDB \<lparr>MONGODB_URI = Some ''db'', storeReachable = False\<rparr>
      (new_process empty_store)) = [LogError (ConnectError ''could not connect to db'')] \<and>
   connect_outcome \<lparr>MONGODB_URI = Some ''db'', storeReachable = True\<rparr> = Inr () \<and>
   console (snd (connectToMongoDB \<lparr>MONGODB_URI = Some ''db'', storeReachable = True\<rparr>
      (new_process empty_store))) = [LogText ''MONGODB CONNECTED'']"
proof -
  have failed: "connect_outcome \<lparr>MONGODB_URI = Some ''db'', storeReachable = False\<rparr> =
     Inl (ConnectError ''could not connect to db'')"
    by (simp add: connect_outcome_def)
  have opened: "connect_outcome \<lparr>MONGODB_URI = Some ''db'', storeReachable = True\<rparr> = Inr ()"
    by (simp add: connect_outcome_def)
  from connectToMongoDB_bootstrap [of "\<lparr>MONGODB_URI = Some ''db'', storeReachable = False\<rparr>"
      "ConnectError ''could not connect to db''" "new_process empty_store"] failed
  have 1: "call_connectToMongoDB \<lparr>MONGODB_URI = Some ''db'', storeReachable = False\<rparr>
      (new_process empty_store) =
      (new_process empty_store)\<lparr>strictQuery := Some False,
         connectAttempts := Suc (connectAttempts (new_process empty_store)),
         console := console (new_process empty_store) @
           [LogError (ConnectError ''could not connect to db'')]\<rparr>"
    by blast
  from connectToMongoDB_bootstrap [of "\<lparr>MONGODB_URI = Some ''db'', storeReachable = True\<rparr>"
      "ConnectError ''could not connect to db''" "new_process empty_store"] opened
  have 2: "connectToMongoDB \<lparr>MONGODB_URI = Some ''db'', storeReachable = True\<rparr>
      (new_process empty_store) =
      (Inr (), (new_process empty_store)\<lparr>strictQuery := Some False,
         connectAttempts := Suc (connectAttempts (new_process empty_store)),
         db := (db (new_process empty_store))\<lparr>connected := True\<rparr>,
         console := console (new_process empty_store) @ [LogText ''MONGODB CONNECTED'']\<rparr>)"
    by blast
  from failed opened show ?thesis
    unfolding 1 2 by (simp add: new_process_def)
qed

section \<open>The application entry\<close>

lemmas startup_defs = startup_def index_js_def new_process_def app_use_def
  server_listen_def console_log_def call_connectToMongoDB_def connectToMongoDB_def
  mongoose_connect_def

lemma started_layers: "layers (started env st) = [JsonBodyParser, Logger ''dev'']"
  by (simp add: started_def startup_defs Let_def split: sum.splits)

lemma started_listening: "listening (started env st) = Some PORT"
  by (simp add: started_def startup_defs Let_def split: sum.splits)

lemma started_attempts: "connectAttempts (started env st) = 1"
  by (simp add: started_def startup_defs Let_def split: sum.splits)

lemma started_no_route: "app_handle (started env st) rq = None"
  by (simp add: app_handle_def started_layers)

text \<open>
  C4, as stated, fails on the entry point: \<open>index.js\<close> mounts no router. Started with a
  reachable store, the application has the body parser and the logger on its stack and
  nothing else, and a \<open>POST\<close> to \<open>/api/users\<close> is answered by no layer.
\<close>

theorem entry_mounts_no_router_counterexample:
  "layers (started \<lparr>MONGODB_URI = Some ''db'', storeReachable = True\<rparr> empty_store) =
     [JsonBodyParser, Logger ''dev''] \<and>
   app_handle (started \<lparr>MONGODB_URI = Some ''db'', storeReachable = True\<rparr> empty_store)
       \<lparr>http_method = POST, http_path = [''api'', ''users''],
        http_body = [(''username'', ''bob'')]\<rparr> = None"
  by (simp add: started_layers started_no_route)

text \<open>
  C4, amended. Once started, the application has the JSON body parser and the request logger
  on its stack; it listens on the fixed port 3000; the last step of the start-up is the call
  of the connection bootstrap, which has attempted one connection. It has mounted no router:
  no request is answered by a route.
\<close>

theorem entry_wires_middleware:
  "layers (started env st) = [JsonBodyParser, Logger ''dev''] \<and>
   listening (started env st) = Some PORT \<and> PORT = 3000 \<and>
   last (index_js env) = call_connectToMongoDB env \<and>
   connectAttempts (started env st) = 1 \<and>
   app_handle (started env st) rq = None"
proof -
  have "last (index_js env) = call_connectToMongoDB env"
    by (simp add: index_js_def)
  moreover have "PORT = 3000"
    by (simp add: PORT_def)
  ultimately show ?thesis
    by (simp add: started_layers started_listening started_attempts started_no_route)
qed

lemma startup_trace:
  "map (\<lambda>w. (listening w, connectAttempts w, connected (db w))) (startup env st) =
     [(None, 0, False), (None, 0, False), (None, 0, False),
      (Some PORT, 0, False), (Some PORT, 0, False),
      (Some PORT, 1, connect_outcome env = Inr ())]"
  by (cases "connect_outcome env") (simp_all add: startup_defs Let_def)

text \<open>
  C9. The states of a start-up, in order: after the third step (index 2 of the steps) the
  server listens, that is, requests can arrive, while no connection has been attempted and
  the store has none; this holds of two successive states. The connection is attempted only
  by the last step (index 4), the call of the bootstrap in the callback of \<open>app.listen\<close>.
\<close>

theorem listening_before_connecting:
  "map (\<lambda>w. (listening w, connectAttempts w, connected (db w))) (startup env st) =
     [(None, 0, False), (None, 0, False), (None, 0, False),
      (Some PORT, 0, False), (Some PORT, 0, False),
      (Some PORT, 1, connect_outcome env = Inr ())] \<and>
   index_js env ! 2 = server_listen PORT \<and>
   index_js env ! 4 = call_connectToMongoDB env \<and>
   length (index_js env) = 5"
proof -
  have "index_js env ! 2 = server_listen PORT"
    "index_js env ! 4 = call_connectToMongoDB env" "length (index_js env) = 5"
    by (simp_all add: index_js_def)
  then show ?thesis
    using startup_trace by blast
qed

section \<open>Validation and the responses of the routes\<close>

text \<open>
  C2. On each validated route, a request that violates a rule (user creation without a
  username or with an empty one; task creation without a title, with an empty one, or with a
  \<open>user\<close> that is not a structurally valid identifier; task lookup with a \<open>userId\<close> that
  is not one) is answered with status 400 and message \<open>validation failure\<close>, the payload
  being the list of the violated rules, and the store is returned as it was. Every call of a
  controller adds an operation to the log of the store, so no controller has been called.
\<close>

theorem validation_rejects_before_controller:
  "(missing_or_empty (map_of (req_body req) ''username'') \<longrightarrow>
      usersRouter_post st req =
        (\<lparr>status = 400, message = ''validation failure'',
          payload = PErrors [\<lparr>ve_location = Body, ve_path = ''username'',
             ve_value = map_of (req_body req) ''username'',
             ve_msg = ''Username is required''\<rparr>]\<rparr>, st)) \<and>
   (missing_or_empty (map_of (req_body req) ''title'') \<or>
    not_an_identifier (map_of (req_body req) ''user'') \<longrightarrow>
      tasksRouter_post st req =
        (\<lparr>status = 400, message = ''validation failure'',
          payload = PErrors
            ((if missing_or_empty (map_of (req_body req) ''title'')
              then [\<lparr>ve_location = Body, ve_path = ''title'',
                     ve_value = map_of (req_body req) ''title'',
                     ve_msg = ''Title is required''\<rparr>]
              else []) @
             (if not_an_identifier (map_of (req_body req) ''user'')
              then [\<lparr>ve_location = Body, ve_path = ''user'',
                     ve_value = map_of (req_body req) ''user'',
                     ve_msg = ''User ID must be a valid MongoDB ObjectId''\<rparr>]
              else []))\<rparr>, st)) \<and>
   (not_an_identifier (map_of (req_params req) ''userId'') \<longrightarrow>
      tasksRouter_get_user st req =
        (\<lparr>status = 400, message = ''validation failure'',
          payload = PErrors [\<lparr>ve_location = Params, ve_path = ''userId'',
             ve_value = map_of (req_params req) ''userId'',
             ve_msg = ''Invalid user ID''\<rparr>]\<rparr>, st)) \<and>
   oplog (snd (createUser st userData)) = oplog st @ [OpUserCreate] \<and>
   oplog (snd (createTask st taskData)) = oplog st @ [OpTaskCreate] \<and>
   oplog (snd (getTasksByUser st userId)) = oplog st @ [OpTaskFindPopulate]"
  by (simp add: usersRouter_post_def tasksRouter_post_def tasksRouter_get_user_def
      users_post_chains tasks_post_chains tasks_get_user_chains
      createUser_oplog createTask_oplog getTasksByUser_oplog)

text \<open>
  A request with an empty username, no title, no \<open>user\<close> and the path parameter \<open>42\<close>
  is rejected by each of the three routes.
\<close>

theorem validation_rejects_before_controller_witness:
  "missing_or_empty (map_of [(''username'', [])] ''username'') \<and>
   missing_or_empty (map_of [(''username'', [])] ''title'') \<and>
   not_an_identifier (map_of [(''userId'', ''42'')] ''userId'') \<and>
   usersRouter_post empty_store
       \<lparr>req_params = [(''userId'', ''42'')], req_body = [(''username'', [])]\<rparr> =
     (\<lparr>status = 400, message = ''validation failure'',
       payload = PErrors [\<lparr>ve_location = Body, ve_path = ''username'',
          ve_value = Some [], ve_msg = ''Username is required''\<rparr>]\<rparr>, empty_store) \<and>
   tasksRouter_post empty_store
       \<lparr>req_params = [(''userId'', ''42'')], req_body = [(''username'', [])]\<rparr> =
     (\<lparr>status = 400, message = ''validation failure'',
       payload = PErrors
         [\<lparr>ve_location = Body, ve_path = ''title'', ve_value = None,
            ve_msg = ''Title is required''\<rparr>,
          \<lparr>ve_location = Body, ve_path = ''user'', ve_value = None,
            ve_msg = ''User ID must be a valid MongoDB ObjectId''\<rparr>]\<rparr>, empty_store) \<and>
   tasksRouter_get_user empty_store
       \<lparr>req_params = [(''userId'', ''42'')], req_body = [(''username'', [])]\<rparr> =
     (\<lparr>status = 400, message = ''validation failure'',
       payload = PErrors [\<lparr>ve_location = Params, ve_path = ''userId'',
          ve_value = Some ''42'', ve_msg = ''Invalid user ID''\<rparr>]\<rparr>, empty_store)"
proof -
  let ?req = "\<lparr>req_params = [(''userId'', ''42'')], req_body = [(''username'', [])]\<rparr>"
  have username: "missing_or_empty (map_of (req_body ?req) ''username'')"
    by (simp add: missing_or_empty_def)
  have title': "missing_or_empty (map_of (req_body ?req) ''title'')"
    by (simp add: missing_or_empty_def)
  have user': "not_an_identifier (map_of (req_body ?req) ''user'')"
    by (simp add: not_an_identifier_def)
  have userId: "not_an_identifier (map_of (req_params ?req) ''userId'')"
    by (simp add: not_an_identifier_def isMongoId_def)
  note rejected = validation_rejects_before_controller [where req = ?req and st = empty_store]
  from rejected username
  have 1: "usersRouter_post empty_store ?req =
        (\<lparr>status = 400, message = ''validation failure'',
          payload = PErrors [\<lparr>ve_location = Body, ve_path = ''username'',
             ve_value = map_of (req_body ?req) ''username'',
             ve_msg = ''Username is required''\<rparr>]\<rparr>, empty_store)"
    by blast
  from rejected title' user'
  have 2: "tasksRouter_post empty_store ?req =
        (\<lparr>status = 400, message = ''validation failure'',
          payload = PErrors
            ([\<lparr>ve_location = Body, ve_path = ''title'',
                     ve_value = map_of (req_body ?req) ''title'',
                     ve_msg = ''Title is required''\<rparr>] @
             [\<lparr>ve_location = Body, ve_path = ''user'',
                     ve_value = map_of (req_body ?req) ''user'',
                     ve_msg = ''User ID must be a valid MongoDB ObjectId''\<rparr>])\<rparr>, empty_store)"
    by presburger
  from rejected userId
  have 3: "tasksRouter_get_user empty_store ?req =
        (\<lparr>status = 400, message = ''validation failure'',
          payload = PErrors [\<lparr>ve_location = Params, ve_path = ''userId'',
             ve_value = map_of (req_params ?req) ''userId'',
             ve_msg = ''Invalid user ID''\<rparr>]\<rparr>, empty_store)"
    by blast
  from username title' userId show ?thesis
    unfolding 1 2 3 by simp
qed

lemma handlers_envelope_tag:
  "envelope_tag (fst (usersRouter_post st req))"
  "envelope_tag (fst (tasksRouter_post st req))"
  "envelope_tag (fst (tasksRouter_get_user st req))"
  by (auto simp add: envelope_tag_def usersRouter_post_def tasksRouter_post_def
      tasksRouter_get_user_def Let_def split: prod.splits sum.splits)

lemma router_handle_envelope:
  assumes "router_handle r st m p b = Some (res, st')"
  shows "envelope_tag res"
proof (cases "(r, st, m, p, b)" rule: router_handle.cases)
  case (1 st b)
  with assms have "res = fst (usersRouter_post st \<lparr>req_params = [], req_body = b\<rparr>)"
    by simp
  then show ?thesis by (simp add: handlers_envelope_tag)
next
  case (2 st b)
  with assms have "res = fst (tasksRouter_post st \<lparr>req_params = [], req_body = b\<rparr>)"
    by simp
  then show ?thesis by (simp add: handlers_envelope_tag)
next
  case (3 st u userId b)
  with assms have "res = fst (tasksRouter_get_user st
      \<lparr>req_params = [(''userId'', userId)], req_body = b\<rparr>)"
    by (simp split: if_splits)
  then show ?thesis by (simp add: handlers_envelope_tag)
qed (use assms in simp_all)

lemma handle_layers_envelope:
  "handle_layers ls st rq = Some (res, st') \<Longrightarrow> envelope_tag res"
proof (induction ls st rq rule: handle_layers.induct)
  case (4 prefix r ls st rq)
  then show ?case
    by (auto split: option.splits dest: router_handle_envelope)
qed simp_all

text \<open>
  C7. Each of the three routes answers with one of three envelopes and no other: status 200
  with message \<open>success\<close> and the entity that the controller returned; status 400 with
  message \<open>validation failure\<close> and a non-empty list of violated rules; status 500 with
  message \<open>failure\<close> and the message of the error that the controller raised. Whatever the
  application answers to a request through its routers carries one of the three pairs of
  status and message.
\<close>

theorem responses_are_envelopes:
  "((\<exists>u st'. createUser st (req_body req) = (Inr u, st') \<and>
        fst (usersRouter_post st req) =
          \<lparr>status = 200, message = ''success'', payload = PUser u\<rparr>) \<or>
    (\<exists>errs. errs \<noteq> [] \<and> fst (usersRouter_post st req) =
        \<lparr>status = 400, message = ''validation failure'', payload = PErrors errs\<rparr>) \<or>
    (\<exists>e st'. createUser st (req_body req) = (Inl e, st') \<and>
        fst (usersRouter_post st req) =
          \<lparr>status = 500, message = ''failure'', payload = PMessage (error_message e)\<rparr>)) \<and>
   ((\<exists>t st'. createTask st (req_body req) = (Inr t, st') \<and>
        fst (tasksRouter_post st req) =
          \<lparr>status = 200, message = ''success'', payload = PTask t\<rparr>) \<or>
    (\<exists>errs. errs \<noteq> [] \<and> fst (tasksRouter_post st req) =
        \<lparr>status = 400, message = ''validation failure'', payload = PErrors errs\<rparr>) \<or>
    (\<exists>e st'. createTask st (req_body req) = (Inl e, st') \<and>
        fst (tasksRouter_post st req) =
          \<lparr>status = 500, message = ''failure'', payload = PMessage (error_message e)\<rparr>)) \<and>
   ((\<exists>ts st'.
        getTasksByUser st (toString (map_of (req_params req) ''userId'')) = (Inr ts, st') \<and>
        fst (tasksRouter_get_user st req) =
          \<lparr>status = 200, message = ''success'', payload = PTasks ts\<rparr>) \<or>
    (\<exists>errs. errs \<noteq> [] \<and> fst (tasksRouter_get_user st req) =
        \<lparr>status = 400, message = ''validation failure'', payload = PErrors errs\<rparr>) \<or>
    (\<exists>e st'.
        getTasksByUser st (toString (map_of (req_params req) ''userId'')) = (Inl e, st') \<and>
        fst (tasksRouter_get_user st req) =
          \<lparr>status = 500, message = ''failure'', payload = PMessage (error_message e)\<rparr>)) \<and>
   (app_handle w rq = Some (res, w') \<longrightarrow> envelope_tag res)"
proof -
  have "app_handle w rq = Some (res, w') \<longrightarrow> envelope_tag res"
    by (auto simp add: app_handle_def split: if_splits option.splits
        dest: handle_layers_envelope)
  then show ?thesis
    by (auto simp add: usersRouter_post_def tasksRouter_post_def tasksRouter_get_user_def
        Let_def split: prod.splits sum.splits)
qed

lemma lower_users: "toLowerCase ''api'' = ''api''" "toLowerCase ''users'' = ''users''"
  by (simp_all add: toLowerCase_def toLowerCase_char_def)

text \<open>
  With the users router mounted under \<open>/api/users\<close> on the started application, a \<open>POST\<close>
  to that path with an empty body is answered with the envelope of a validation failure.
\<close>

theorem responses_are_envelopes_witness:
  "app_handle
       (app_use (Mount [''api'', ''users''] UsersRouter)
          (started \<lparr>MONGODB_URI = Some ''db'', storeReachable = True\<rparr> empty_store))
       \<lparr>http_method = POST, http_path = [''api'', ''users''], http_body = []\<rparr> =
     Some (\<lparr>status = 400, message = ''validation failure'',
             payload = PErrors [\<lparr>ve_location = Body, ve_path = ''username'',
                ve_value = None, ve_msg = ''Username is required''\<rparr>]\<rparr>,
           app_use (Mount [''api'', ''users''] UsersRouter)
             (started \<lparr>MONGODB_URI = Some ''db'', storeReachable = True\<rparr> empty_store)) \<and>
   envelope_tag \<lparr>status = 400, message = ''validation failure'',
             payload = PErrors [\<lparr>ve_location = Body, ve_path = ''username'',
                ve_value = None, ve_msg = ''Username is required''\<rparr>]\<rparr>"
proof -
  let ?w = "app_use (Mount [''api'', ''users''] UsersRouter)
      (started \<lparr>MONGODB_URI = Some ''db'', storeReachable = True\<rparr> empty_store)"
  let ?res = "\<lparr>status = 400, message = ''validation failure'',
             payload = PErrors [\<lparr>ve_location = Body, ve_path = ''username'',
                ve_value = None, ve_msg = ''Username is required''\<rparr>]\<rparr>"
  have stack: "layers ?w = [JsonBodyParser, Logger ''dev'', Mount [''api'', ''users''] UsersRouter]"
    "listening ?w = Some PORT"
    by (simp_all add: app_use_def started_layers started_listening)
  have answered: "app_handle ?w
       \<lparr>http_method = POST, http_path = [''api'', ''users''], http_body = []\<rparr> =
     Some (?res, ?w)"
    by (simp only: app_handle_def stack)
       (simp add: usersRouter_post_def users_post_chains missing_or_empty_def)
  from responses_are_envelopes [where w = ?w and res = ?res and w' = ?w
      and rq = "\<lparr>http_method = POST, http_path = [''api'', ''users''], http_body = []\<rparr>"]
    answered
  have "envelope_tag ?res" by blast
  with answered show ?thesis by blast
qed

lemma Task_create_users: "fst (Task_create (st\<lparr>users := us\<rparr>) d) = fst (Task_create st d)"
  by (simp add: Task_create_def submit_def Let_def split: option.splits prod.splits)

lemma tasksRouter_post_users:
  "fst (tasksRouter_post (st\<lparr>users := us\<rparr>) req) = fst (tasksRouter_post st req)"
proof -
  have "fst (Task_create (st\<lparr>users := us\<rparr>) (req_body req)) =
      fst (Task_create st (req_body req))"
    by (rule Task_create_users)
  then show ?thesis
    by (cases "Task_create st (req_body req)";
        cases "Task_create (st\<lparr>users := us\<rparr>) (req_body req)")
       (auto simp add: tasksRouter_post_def createTask_eq Let_def split: sum.splits)
qed

lemma Task_create_valid:
  assumes "map_of d ''title'' = Some t" "t \<noteq> []" "map_of d ''user'' = Some u" "isMongoId u"
    "connected st"
  shows "Task_create st d =
    (Inr \<lparr>task_id = newObjectId (nextId st), title = t, user = toLowerCase u,
          task_createdAt = clock st, task_updatedAt = clock st\<rparr>,
     st\<lparr>oplog := oplog st @ [OpTaskCreate],
        tasks := tasks st @ [\<lparr>task_id = newObjectId (nextId st), title = t,
          user = toLowerCase u, task_createdAt = clock st, task_updatedAt = clock st\<rparr>],
        nextId := Suc (nextId st), clock := Suc (clock st)\<rparr>)"
  using assms
  by (simp add: Task_create_def submit_def Let_def requiredString_def requiredObjectId_def
      castObjectId_def)

text \<open>
  C8. The chains of task creation record no error exactly when \<open>title\<close> is present and not
  empty and \<open>user\<close> is a structurally valid identifier, and the route answers 400 exactly
  when they record one. The answer does not depend on the users that the store holds: no
  User is looked up. So a task whose \<open>user\<close> is well-formed and is the identifier of no
  stored User passes validation, and with the store connected it is created.
\<close>

theorem task_validation_format_only:
  "(validationResult tasksRouter_post_chains req = [] \<longleftrightarrow>
      \<not> missing_or_empty (map_of (req_body req) ''title'') \<and>
      \<not> not_an_identifier (map_of (req_body req) ''user'')) \<and>
   (status (fst (tasksRouter_post st req)) = 400 \<longleftrightarrow>
      validationResult tasksRouter_post_chains req \<noteq> []) \<and>
   fst (tasksRouter_post (st\<lparr>users := us\<rparr>) req) = fst (tasksRouter_post st req) \<and>
   (map_of (req_body req) ''title'' = Some t \<and> t \<noteq> [] \<and>
    map_of (req_body req) ''user'' = Some u \<and> isMongoId u \<and>
    toLowerCase u \<notin> user_id ` set (users st) \<longrightarrow>
      validationResult tasksRouter_post_chains req = [] \<and>
      (connected st \<longrightarrow>
         fst (tasksRouter_post st req) =
           \<lparr>status = 200, message = ''success'',
            payload = PTask \<lparr>task_id = newObjectId (nextId st), title = t,
               user = toLowerCase u, task_createdAt = clock st,
               task_updatedAt = clock st\<rparr>\<rparr>))"
proof -
  have gate: "status (fst (tasksRouter_post st req)) = 400 \<longleftrightarrow>
      validationResult tasksRouter_post_chains req \<noteq> []"
    by (auto simp add: tasksRouter_post_def Let_def split: prod.splits sum.splits)
  have exact: "validationResult tasksRouter_post_chains req = [] \<longleftrightarrow>
      \<not> missing_or_empty (map_of (req_body req) ''title'') \<and>
      \<not> not_an_identifier (map_of (req_body req) ''user'')"
    by (simp add: tasks_post_chains)
  have created: "fst (tasksRouter_post st req) =
           \<lparr>status = 200, message = ''success'',
            payload = PTask \<lparr>task_id = newObjectId (nextId st), title = t,
               user = toLowerCase u, task_createdAt = clock st,
               task_updatedAt = clock st\<rparr>\<rparr>"
    if "map_of (req_body req) ''title'' = Some t" "t \<noteq> []"
      "map_of (req_body req) ''user'' = Some u" "isMongoId u" "connected st"
    using that Task_create_valid [OF that]
    by (simp add: tasksRouter_post_def tasks_post_chains createTask_eq
        missing_or_empty_def not_an_identifier_def)
  have accepted: "validationResult tasksRouter_post_chains req = []"
    if "map_of (req_body req) ''title'' = Some t" "t \<noteq> []"
      "map_of (req_body req) ''user'' = Some u" "isMongoId u"
    using that by (simp add: tasks_post_chains missing_or_empty_def not_an_identifier_def)
  from gate exact created accepted
    tasksRouter_post_users [where st = st and us = us and req = req]
  show ?thesis by blast
qed

text \<open>
  On the connected empty store, which holds no User at all, a task for the user
  \<open>507f1f77bcf86cd799439011\<close> passes validation and is created.
\<close>

theorem task_validation_format_only_witness:
  "isMongoId ''507f1f77bcf86cd799439011'' \<and>
   toLowerCase ''507f1f77bcf86cd799439011'' \<notin>
     user_id ` set (users (empty_store\<lparr>connected := True\<rparr>)) \<and>
   validationResult tasksRouter_post_chains
     \<lparr>req_params = [],
      req_body = [(''title'', ''t''), (''user'', ''507f1f77bcf86cd799439011'')]\<rparr> = [] \<and>
   fst (tasksRouter_post (empty_store\<lparr>connected := True\<rparr>)
     \<lparr>req_params = [],
      req_body = [(''title'', ''t''), (''user'', ''507f1f77bcf86cd799439011'')]\<rparr>) =
     \<lparr>status = 200, message = ''success'',
      payload = PTask \<lparr>task_id = ''000000000000000000000000'', title = ''t'',
         user = ''507f1f77bcf86cd799439011'', task_createdAt = 0, task_updatedAt = 0\<rparr>\<rparr>"
proof -
  let ?st = "empty_store\<lparr>connected := True\<rparr>"
  let ?req = "\<lparr>req_params = [],
      req_body = [(''title'', ''t''), (''user'', ''507f1f77bcf86cd799439011'')]\<rparr>"
  have given: "map_of (req_body ?req) ''title'' = Some ''t'' \<and> ''t'' \<noteq> [] \<and>
    map_of (req_body ?req) ''user'' = Some ''507f1f77bcf86cd799439011'' \<and>
    isMongoId ''507f1f77bcf86cd799439011'' \<and>
    toLowerCase ''507f1f77bcf86cd799439011'' \<notin> user_id ` set (users ?st)"
    using objectId_example by (simp add: empty_store_def)
  have conn: "connected ?st" by simp
  from task_validation_format_only [where req = ?req and st = ?st and t = "''t''"
      and u = "''507f1f77bcf86cd799439011''"] given conn
  have "validationResult tasksRouter_post_chains ?req = [] \<and>
    fst (tasksRouter_post ?st ?req) =
           \<lparr>status = 200, message = ''success'',
            payload = PTask \<lparr>task_id = newObjectId (nextId ?st), title = ''t'',
               user = toLowerCase ''507f1f77bcf86cd799439011'', task_createdAt = clock ?st,
               task_updatedAt = clock ?st\<rparr>\<rparr>"
    by blast
  with given show ?thesis
    by (simp add: objectId_example_lower newObjectId_0 empty_store_def)
qed


section \<open>The users and the tasks of the store\<close>

lemma toLowerCase_char_upper:
  "upper_case_letter c \<Longrightarrow> (of_char (toLowerCase_char c) :: nat) = of_char c + 32"
  by (auto simp add: toLowerCase_char_def upper_case_letter_def Let_def)

lemma toLowerCase_char_other: "\<not> upper_case_letter c \<Longrightarrow> toLowerCase_char c = c"
  by (auto simp add: toLowerCase_char_def upper_case_letter_def Let_def)

lemma not_upper_toLowerCase_char: "\<not> upper_case_letter (toLowerCase_char c)"
  by (auto simp add: toLowerCase_char_def upper_case_letter_def Let_def)

lemma lower_case_of_toLowerCase_char:
  assumes "lower_case_of C c"
  shows "toLowerCase_char C = c" and "toLowerCase_char c = c"
proof -
  from assms have up: "upper_case_letter C" and n: "(of_char c :: nat) = of_char C + 32"
    by (simp_all add: lower_case_of_def)
  from toLowerCase_char_upper [OF up] n
  have "(of_char (toLowerCase_char C) :: nat) = of_char c" by simp
  then show "toLowerCase_char C = c" by simp
  from up n have "\<not> upper_case_letter c"
    by (auto simp add: upper_case_letter_def Let_def)
  then show "toLowerCase_char c = c" by (rule toLowerCase_char_other)
qed

lemma same_ignoring_case_toLowerCase:
  "same_ignoring_case a b \<Longrightarrow> toLowerCase a = toLowerCase b"
  unfolding same_ignoring_case_def toLowerCase_def
  by (induction a b rule: list_all2_induct) (auto simp add: lower_case_of_toLowerCase_char)

lemma same_ignoring_case_lower: "same_ignoring_case s (toLowerCase s)"
proof -
  have "x = toLowerCase_char x \<or> lower_case_of x (toLowerCase_char x) \<or>
      lower_case_of (toLowerCase_char x) x" for x
  proof (cases "upper_case_letter x")
    case True
    with toLowerCase_char_upper [OF True] show ?thesis
      by (simp add: lower_case_of_def)
  next
    case False
    then show ?thesis by (simp add: toLowerCase_char_other)
  qed
  then show ?thesis
    by (simp add: same_ignoring_case_def toLowerCase_def list_all2_map2 list_all2_same)
qed

lemma no_upper_toLowerCase: "c \<in> set (toLowerCase s) \<Longrightarrow> \<not> upper_case_letter c"
  by (auto simp add: toLowerCase_def not_upper_toLowerCase_char)

lemma toLowerCase_fixed: "(\<forall>c \<in> set s. \<not> upper_case_letter c) \<Longrightarrow> toLowerCase s = s"
  by (simp add: toLowerCase_def toLowerCase_char_other map_idI)

lemma User_create_users:
  "users (snd (User_create st d)) = users st \<or>
   (\<exists>v doc. map_of d ''username'' = Some v \<and> toLowerCase v \<noteq> [] \<and>
      toLowerCase v \<notin> set (map username (users st)) \<and> username doc = toLowerCase v \<and>
      fst (User_create st d) = Inr doc \<and>
      users (snd (User_create st d)) = users st @ [doc])"
  by (auto simp add: User_create_def submit_def Let_def split: option.splits)

lemma Task_create_keeps_users: "users (snd (Task_create st d)) = users st"
  by (simp add: Task_create_def submit_def Let_def split: option.splits prod.splits)

lemma Task_find_populate_keeps:
  "users (snd (Task_find_populate st u)) = users st"
  "tasks (snd (Task_find_populate st u)) = tasks st"
  by (simp_all add: Task_find_populate_def submit_def Let_def split: option.splits)

lemma reachable_usernames:
  assumes "reachable st"
  shows "distinct (map username (users st)) \<and>
    (\<forall>u \<in> set (users st). username u \<noteq> [] \<and>
       (\<forall>c \<in> set (username u). \<not> upper_case_letter c))"
  using assms
proof (induction rule: reachable.induct)
  case reachable_empty
  show ?case by (simp add: empty_store_def)
next
  case (reachable_connection st b)
  then show ?case by simp
next
  case (reachable_clock st n)
  then show ?case by simp
next
  case (reachable_createUser st userData)
  from User_create_users [of st userData] show ?case
  proof
    assume "users (snd (User_create st userData)) = users st"
    with reachable_createUser.IH show ?thesis by (simp add: createUser_eq)
  next
    assume "\<exists>v doc. map_of userData ''username'' = Some v \<and> toLowerCase v \<noteq> [] \<and>
      toLowerCase v \<notin> set (map username (users st)) \<and> username doc = toLowerCase v \<and>
      fst (User_create st userData) = Inr doc \<and>
      users (snd (User_create st userData)) = users st @ [doc]"
    then obtain v doc where new: "toLowerCase v \<noteq> []"
      "toLowerCase v \<notin> set (map username (users st))" "username doc = toLowerCase v"
      "users (snd (User_create st userData)) = users st @ [doc]"
      by blast
    from new(3) have "\<forall>c \<in> set (username doc). \<not> upper_case_letter c"
      by (simp add: no_upper_toLowerCase)
    with new reachable_createUser.IH show ?thesis
      by (simp add: createUser_eq)
  qed
next
  case (reachable_createTask st taskData)
  then show ?case by (simp add: createTask_eq Task_create_keeps_users)
next
  case (reachable_getTasksByUser st userId)
  then show ?case by (simp add: getTasksByUser_eq Task_find_populate_keeps)
qed

lemma User_create_collision:
  assumes "map_of d ''username'' = Some name" "toLowerCase name \<in> set (map username (users st))"
    "toLowerCase name \<noteq> []"
  shows "fst (User_create st d) =
      Inl (if connected st then DuplicateKeyError (toLowerCase name)
           else StoreUnreachable OpUserCreate) \<and>
    users (snd (User_create st d)) = users st"
  using assms by (simp add: User_create_def submit_def Let_def)

text \<open>
  C3. In every store that the application can bring about, no two Users have the same
  username and no stored username has a capital letter in it. A \<open>createUser\<close> that succeeds
  has stored the username it was given with every capital letter replaced by its small
  letter. A \<open>createUser\<close> whose username collides case-insensitively with the username of a
  stored User fails with an error of the persistence layer (the duplicate key error when the
  store is connected) and creates no record.
\<close>

theorem usernames_lowercase_unique:
  assumes "reachable st"
  shows "distinct (map username (users st)) \<and>
    (\<forall>u \<in> set (users st). \<forall>c \<in> set (username u). \<not> upper_case_letter c) \<and>
    (\<forall>u. fst (createUser st userData) = Inr u \<longrightarrow>
       (\<exists>name. map_of userData ''username'' = Some name \<and>
          same_ignoring_case name (username u) \<and>
          (\<forall>c \<in> set (username u). \<not> upper_case_letter c)) \<and>
       users (snd (createUser st userData)) = users st @ [u]) \<and>
    (\<forall>name. map_of userData ''username'' = Some name \<and>
       (\<exists>u \<in> set (users st). same_ignoring_case name (username u)) \<longrightarrow>
       (\<exists>e. fst (createUser st userData) = Inl e \<and>
          (e = DuplicateKeyError (toLowerCase name) \<or> e = StoreUnreachable OpUserCreate) \<and>
          (connected st \<longrightarrow> e = DuplicateKeyError (toLowerCase name))) \<and>
       users (snd (createUser st userData)) = users st)"
proof -
  note inv = reachable_usernames [OF assms]
  have written: "(\<exists>name. map_of userData ''username'' = Some name \<and>
          same_ignoring_case name (username u) \<and>
          (\<forall>c \<in> set (username u). \<not> upper_case_letter c)) \<and>
       users (snd (createUser st userData)) = users st @ [u]"
    if "fst (createUser st userData) = Inr u" for u
  proof -
    from that obtain name where "map_of userData ''username'' = Some name"
      "username u = toLowerCase name" "users (snd (createUser st userData)) = users st @ [u]"
      by (auto simp add: createUser_eq User_create_def submit_def Let_def
          split: option.splits if_splits)
    then show ?thesis
      using same_ignoring_case_lower [of name] no_upper_toLowerCase [of _ name] by auto
  qed
  have collide: "(\<exists>e. fst (createUser st userData) = Inl e \<and>
          (e = DuplicateKeyError (toLowerCase name) \<or> e = StoreUnreachable OpUserCreate) \<and>
          (connected st \<longrightarrow> e = DuplicateKeyError (toLowerCase name))) \<and>
       users (snd (createUser st userData)) = users st"
    if "map_of userData ''username'' = Some name"
      and "\<exists>u \<in> set (users st). same_ignoring_case name (username u)" for name
  proof -
    from that(2) obtain u where u: "u \<in> set (users st)"
      "same_ignoring_case name (username u)" by blast
    from u(1) inv have "username u \<noteq> []" "\<forall>c \<in> set (username u). \<not> upper_case_letter c"
      by auto
    with same_ignoring_case_toLowerCase [OF u(2)] toLowerCase_fixed [of "username u"]
    have "toLowerCase name = username u" "toLowerCase name \<noteq> []"
      by simp_all
    with u(1) have "toLowerCase name \<in> set (map username (users st))" "toLowerCase name \<noteq> []"
      by force+
    with that(1) have "fst (User_create st userData) =
      Inl (if connected st then DuplicateKeyError (toLowerCase name)
           else StoreUnreachable OpUserCreate) \<and>
      users (snd (User_create st userData)) = users st"
      by (rule User_create_collision)
    then show ?thesis
      by (simp add: createUser_eq)
  qed
  from inv have "distinct (map username (users st))"
    "\<forall>u \<in> set (users st). \<forall>c \<in> set (username u). \<not> upper_case_letter c"
    by simp_all
  with written collide show ?thesis by blast
qed

lemma lower_Eva:
  "toLowerCase [CHR 0xC9, CHR ''v'', CHR ''a''] = [CHR 0xE9, CHR ''v'', CHR ''a'']"
  "toLowerCase [CHR 0xE9, CHR ''V'', CHR ''A''] = [CHR 0xE9, CHR ''v'', CHR ''a'']"
  by code_simp+

lemma same_Eva:
  "same_ignoring_case [CHR 0xE9, CHR ''V'', CHR ''A''] [CHR 0xE9, CHR ''v'', CHR ''a'']"
  by code_simp

lemma store_with_Eva:
  "snd (createUser (empty_store\<lparr>connected := True\<rparr>)
         [(''username'', [CHR 0xC9, CHR ''v'', CHR ''a''])]) =
     \<lparr>connected = True,
      users = [\<lparr>user_id = ''000000000000000000000000'',
                username = [CHR 0xE9, CHR ''v'', CHR ''a''],
                user_createdAt = 0, user_updatedAt = 0\<rparr>],
      tasks = [], nextId = 1, clock = 1, oplog = [OpUserCreate]\<rparr>"
  by (simp add: createUser_eq User_create_def submit_def empty_store_def lower_Eva
      newObjectId_0 Let_def)

text \<open>
  After a User has been created on the connected empty store with the username U+00C9
  \<open>v\<close> \<open>a\<close>, the store holds U+00E9 \<open>v\<close> \<open>a\<close>, and the creation of U+00E9 \<open>V\<close> \<open>A\<close>
  fails with the duplicate key error.
\<close>

theorem usernames_lowercase_unique_witness:
  "reachable (snd (createUser (empty_store\<lparr>connected := True\<rparr>)
       [(''username'', [CHR 0xC9, CHR ''v'', CHR ''a''])])) \<and>
   users (snd (createUser (empty_store\<lparr>connected := True\<rparr>)
       [(''username'', [CHR 0xC9, CHR ''v'', CHR ''a''])])) =
     [\<lparr>user_id = ''000000000000000000000000'', username = [CHR 0xE9, CHR ''v'', CHR ''a''],
       user_createdAt = 0, user_updatedAt = 0\<rparr>] \<and>
   same_ignoring_case [CHR 0xE9, CHR ''V'', CHR ''A''] [CHR 0xE9, CHR ''v'', CHR ''a''] \<and>
   fst (createUser
          (snd (createUser (empty_store\<lparr>connected := True\<rparr>)
             [(''username'', [CHR 0xC9, CHR ''v'', CHR ''a''])]))
          [(''username'', [CHR 0xE9, CHR ''V'', CHR ''A''])]) =
     Inl (DuplicateKeyError [CHR 0xE9, CHR ''v'', CHR ''a''])"
proof -
  let ?st = "snd (createUser (empty_store\<lparr>connected := True\<rparr>)
       [(''username'', [CHR 0xC9, CHR ''v'', CHR ''a''])])"
  let ?data = "[(''username'', [CHR 0xE9, CHR ''V'', CHR ''A''])]"
  have r: "reachable ?st"
    by (intro reachable_createUser reachable_connection reachable_empty)
  have us: "users ?st = [\<lparr>user_id = ''000000000000000000000000'',
       username = [CHR 0xE9, CHR ''v'', CHR ''a''],
       user_createdAt = 0, user_updatedAt = 0\<rparr>]"
    by (simp add: store_with_Eva)
  have conn: "connected ?st"
    by (simp add: store_with_Eva)
  have collides: "map_of ?data ''username'' = Some [CHR 0xE9, CHR ''V'', CHR ''A''] \<and>
      (\<exists>u \<in> set (users ?st). same_ignoring_case [CHR 0xE9, CHR ''V'', CHR ''A''] (username u))"
    by (simp add: us same_Eva)
  from usernames_lowercase_unique [OF r, where userData = ?data] collides conn
  have "fst (createUser ?st ?data) =
      Inl (DuplicateKeyError (toLowerCase [CHR 0xE9, CHR ''V'', CHR ''A'']))"
    by blast
  then have "fst (createUser ?st ?data) = Inl (DuplicateKeyError [CHR 0xE9, CHR ''v'', CHR ''a''])"
    by (simp only: lower_Eva)
  with r us same_Eva show ?thesis by blast
qed

lemma find_user_cases:
  "(case find (\<lambda>u. user_id u = i) us of
      Some u \<Rightarrow> u \<in> set us \<and> user_id u = i
    | None \<Rightarrow> i \<notin> user_id ` set us)"
  by (induction us) (auto split: option.splits)

text \<open>
  C1, as stated, fails where a task refers to a User that the store does not hold, which
  task creation permits: on the connected empty store a task is created for the user
  \<open>507f1f77bcf86cd799439011\<close>; \<open>getTasksByUser\<close> of that identifier returns the task
  with \<open>null\<close> in its \<open>user\<close> field, not with a User document.
\<close>

theorem getTasksByUser_dangling_counterexample:
  "fst (getTasksByUser
         (snd (createTask (empty_store\<lparr>connected := True\<rparr>)
                [(''title'', ''t''), (''user'', ''507f1f77bcf86cd799439011'')]))
         ''507f1f77bcf86cd799439011'') =
     Inr [\<lparr>ptask_id = ''000000000000000000000000'', ptitle = ''t'', puser = None,
           ptask_createdAt = 0, ptask_updatedAt = 0\<rparr>]"
proof -
  have "createTask (empty_store\<lparr>connected := True\<rparr>)
      [(''title'', ''t''), (''user'', ''507f1f77bcf86cd799439011'')] =
    (Inr \<lparr>task_id = ''000000000000000000000000'', title = ''t'',
          user = ''507f1f77bcf86cd799439011'', task_createdAt = 0, task_updatedAt = 0\<rparr>,
     \<lparr>connected = True, users = [],
      tasks = [\<lparr>task_id = ''000000000000000000000000'', title = ''t'',
          user = ''507f1f77bcf86cd799439011'', task_createdAt = 0, task_updatedAt = 0\<rparr>],
      nextId = 1, clock = 1, oplog = [OpTaskCreate]\<rparr>)"
    using objectId_example
    by (simp add: createTask_eq Task_create_def submit_def empty_store_def requiredString_def
        requiredObjectId_def castObjectId_def objectId_example_lower newObjectId_0 Let_def)
  then show ?thesis
    using objectId_example
    by (simp add: getTasksByUser_eq Task_find_populate_def submit_def castObjectId_def
        objectId_example_lower populate_def)
qed

text \<open>
  C1, amended. For every structurally valid identifier \<open>userId\<close>, with the store
  connected, \<open>getTasksByUser(userId)\<close> returns the tasks whose \<open>user\<close> is that
  identifier, all of them and in the order of the collection, with their other fields as
  stored; each carries in place of the identifier the stored User document with that
  identifier, or \<open>null\<close> when no stored User has it. When no task matches, the result is
  the empty sequence, not an error. The collections are left as they were.
\<close>

theorem getTasksByUser_populated:
  assumes "isMongoId userId" and "connected st"
  shows "\<exists>ts. fst (getTasksByUser st userId) = Inr ts \<and>
     map (\<lambda>p. (ptask_id p, ptitle p, ptask_createdAt p, ptask_updatedAt p)) ts =
       map (\<lambda>t. (task_id t, title t, task_createdAt t, task_updatedAt t))
         (filter (\<lambda>t. user t = toLowerCase userId) (tasks st)) \<and>
     (\<forall>p \<in> set ts. case puser p of
         Some u \<Rightarrow> u \<in> set (users st) \<and> user_id u = toLowerCase userId
       | None \<Rightarrow> toLowerCase userId \<notin> user_id ` set (users st)) \<and>
     ((\<forall>t \<in> set (tasks st). user t \<noteq> toLowerCase userId) \<longrightarrow> ts = []) \<and>
     users (snd (getTasksByUser st userId)) = users st \<and>
     tasks (snd (getTasksByUser st userId)) = tasks st"
proof -
  let ?found = "filter (\<lambda>t. user t = toLowerCase userId) (tasks st)"
  let ?ts = "map (populate (users st)) ?found"
  from assms have result: "fst (getTasksByUser st userId) = Inr ?ts"
    by (simp add: getTasksByUser_eq Task_find_populate_def submit_def castObjectId_def)
  have fields: "map (\<lambda>p. (ptask_id p, ptitle p, ptask_createdAt p, ptask_updatedAt p)) ?ts =
       map (\<lambda>t. (task_id t, title t, task_createdAt t, task_updatedAt t)) ?found"
    by (simp add: populate_def comp_def)
  have joined: "case puser p of
         Some u \<Rightarrow> u \<in> set (users st) \<and> user_id u = toLowerCase userId
       | None \<Rightarrow> toLowerCase userId \<notin> user_id ` set (users st)"
    if "p \<in> set ?ts" for p
  proof -
    from that obtain t where "p = populate (users st) t" "user t = toLowerCase userId"
      by auto
    with find_user_cases [of "toLowerCase userId" "users st"] show ?thesis
      by (simp add: populate_def)
  qed
  have none: "?ts = []" if "\<forall>t \<in> set (tasks st). user t \<noteq> toLowerCase userId"
    using that by (simp add: filter_empty_conv)
  have kept: "users (snd (getTasksByUser st userId)) = users st"
    "tasks (snd (getTasksByUser st userId)) = tasks st"
    by (simp_all add: getTasksByUser_eq Task_find_populate_keeps)
  from result fields joined none kept show ?thesis by blast
qed

text \<open>
  A store with the user \<open>bob\<close> and one task of his: the task comes back with the User
  document of \<open>bob\<close> in its \<open>user\<close> field.
\<close>

theorem getTasksByUser_populated_witness:
  "isMongoId ''000000000000000000000000'' \<and>
   fst (getTasksByUser
     \<lparr>connected = True,
      users = [\<lparr>user_id = ''000000000000000000000000'', username = ''bob'',
                user_createdAt = 0, user_updatedAt = 0\<rparr>],
      tasks = [\<lparr>task_id = ''000000000000000000000001'', title = ''t'',
                user = ''000000000000000000000000'', task_createdAt = 1,
                task_updatedAt = 1\<rparr>],
      nextId = 2, clock = 2, oplog = []\<rparr> ''000000000000000000000000'') =
     Inr [\<lparr>ptask_id = ''000000000000000000000001'', ptitle = ''t'',
           puser = Some \<lparr>user_id = ''000000000000000000000000'', username = ''bob'',
                user_createdAt = 0, user_updatedAt = 0\<rparr>,
           ptask_createdAt = 1, ptask_updatedAt = 1\<rparr>]"
proof -
  let ?bob = "\<lparr>user_id = ''000000000000000000000000'', username = ''bob'',
                user_createdAt = 0, user_updatedAt = 0\<rparr>"
  let ?st = "\<lparr>connected = True, users = [?bob],
      tasks = [\<lparr>task_id = ''000000000000000000000001'', title = ''t'',
                user = ''000000000000000000000000'', task_createdAt = 1,
                task_updatedAt = 1\<rparr>],
      nextId = 2, clock = 2, oplog = []\<rparr>"
  have valid: "isMongoId ''000000000000000000000000''"
    by (simp add: isMongoId_def isHexDigit_def)
  have lower: "toLowerCase ''000000000000000000000000'' = ''000000000000000000000000''"
    by (simp add: toLowerCase_def toLowerCase_char_def)
  have conn: "connected ?st" by simp
  from getTasksByUser_populated [OF valid conn] obtain ts where
    ts: "fst (getTasksByUser ?st ''000000000000000000000000'') = Inr ts"
    and fields: "map (\<lambda>p. (ptask_id p, ptitle p, ptask_createdAt p, ptask_updatedAt p)) ts =
       map (\<lambda>t. (task_id t, title t, task_createdAt t, task_updatedAt t))
         (filter (\<lambda>t. user t = toLowerCase ''000000000000000000000000'') (tasks ?st))"
    and joined: "\<forall>p \<in> set ts. case puser p of
         Some u \<Rightarrow> u \<in> set (users ?st) \<and> user_id u = toLowerCase ''000000000000000000000000''
       | None \<Rightarrow> toLowerCase ''000000000000000000000000'' \<notin> user_id ` set (users ?st)"
    by blast
  from fields obtain p where p: "ts = [p]" "ptask_id p = ''000000000000000000000001''"
    "ptitle p = ''t''" "ptask_createdAt p = 1" "ptask_updatedAt p = 1"
    by (auto simp add: lower)
  with joined have "puser p = Some ?bob"
    by (cases "puser p") (simp_all add: lower)
  with p have "p = \<lparr>ptask_id = ''000000000000000000000001'', ptitle = ''t'',
           puser = Some ?bob, ptask_createdAt = 1, ptask_updatedAt = 1\<rparr>"
    by (cases p) simp
  with ts p(1) valid show ?thesis by simp
qed

end
